theory Spec2Isabelle
  imports Main "HOL-Library.Word" "HOL-Library.List_Lexorder"
begin

section \<open>Strings\<close>

text \<open>
  A JavaScript string is a sequence of 16-bit code units; \<open>length\<close>, \<open>charAt\<close>, \<open>substr\<close>,
  \<open>startsWith\<close> and regular expressions without the \<open>u\<close> flag all work on code units.
  Literals are written \<open>js ''...''\<close>.
\<close>

type_synonym jsstring = "16 word list"

definition js :: "string \<Rightarrow> jsstring" where
  "js s = map of_char s"

abbreviation LF :: "16 word" where "LF \<equiv> 0x0A"
abbreviation CR :: "16 word" where "CR \<equiv> 0x0D"
abbreviation TAB :: "16 word" where "TAB \<equiv> 0x09"
abbreviation SPACE :: "16 word" where "SPACE \<equiv> 0x20"
abbreviation ESC :: "16 word" where "ESC \<equiv> 0x1B"
abbreviation DEL :: "16 word" where "DEL \<equiv> 0x7F"
abbreviation BACKSLASH :: "16 word" where "BACKSLASH \<equiv> 0x5C"
abbreviation SQUOTE :: "16 word" where "SQUOTE \<equiv> 0x27"
abbreviation DQUOTE :: "16 word" where "DQUOTE \<equiv> 0x22"
abbreviation PIPE :: "16 word" where "PIPE \<equiv> 0x7C"
abbreviation AMP :: "16 word" where "AMP \<equiv> 0x26"

text \<open>\<open>s.charAt(i)\<close>: the one-unit string at \<open>i\<close>, the empty string out of range.\<close>

definition charAt :: "jsstring \<Rightarrow> nat \<Rightarrow> jsstring" where
  "charAt s i = (if i < length s then [s ! i] else [])"

text \<open>\<open>s.startsWith(p)\<close> and \<open>s.endsWith(p)\<close>.\<close>

definition startsWith :: "jsstring \<Rightarrow> jsstring \<Rightarrow> bool" where
  "startsWith s p = (take (length p) s = p)"

definition endsWith :: "jsstring \<Rightarrow> jsstring \<Rightarrow> bool" where
  "endsWith s p = (length p \<le> length s \<and> drop (length s - length p) s = p)"

text \<open>
  \<open>s.trim()\<close> removes WhiteSpace and LineTerminator code units from both ends
  (ECMAScript: TAB, LF, VT, FF, CR, SP, NBSP, U+1680, U+2000..U+200A, U+2028, U+2029, U+202F,
  U+205F, U+3000, U+FEFF).
\<close>

definition isTrimSpace :: "16 word \<Rightarrow> bool" where
  "isTrimSpace c =
     (c = 0x09 \<or> c = 0x0A \<or> c = 0x0B \<or> c = 0x0C \<or> c = 0x0D \<or> c = 0x20 \<or> c = 0xA0
      \<or> c = 0x1680 \<or> (0x2000 \<le> c \<and> c \<le> 0x200A) \<or> c = 0x2028 \<or> c = 0x2029
      \<or> c = 0x202F \<or> c = 0x205F \<or> c = 0x3000 \<or> c = 0xFEFF)"

definition trim :: "jsstring \<Rightarrow> jsstring" where
  "trim s = rev (dropWhile isTrimSpace (rev (dropWhile isTrimSpace s)))"

section \<open>utils.ts: offsets and rows\<close>

record position =
  row :: nat
  col :: nat

text \<open>One iteration of the loop of \<open>offsetToColRow\<close>, on the character \<open>chr\<close>.\<close>

definition colRowStep :: "nat \<Rightarrow> jsstring \<Rightarrow> position \<Rightarrow> position" where
  "colRowStep maxCols chr p =
     (if chr = [LF] then \<lparr>row = row p + 1, col = 0\<rparr>
      else if col p + 1 > maxCols then \<lparr>row = row p + 1, col = 0\<rparr>
      else \<lparr>row = row p, col = col p + 1\<rparr>)"

definition offsetToColRow :: "jsstring \<Rightarrow> nat \<Rightarrow> nat \<Rightarrow> position" where
  "offsetToColRow input offset maxCols =
     fold (\<lambda>i. colRowStep maxCols (charAt input i)) [0..<offset] \<lparr>row = 0, col = 0\<rparr>"

definition countLines :: "jsstring \<Rightarrow> nat \<Rightarrow> nat" where
  "countLines input maxCols = row (offsetToColRow input (length input) maxCols) + 1"

section \<open>Properties of the row count\<close>

text \<open>
  Two runs of the loop over the same characters, one with the narrower width \<open>m2\<close>: the
  narrower run is never behind, in the lexicographic order on (row, col).
\<close>

definition behind :: "position \<Rightarrow> position \<Rightarrow> bool" where
  "behind p q = (row p < row q \<or> (row p = row q \<and> col p \<le> col q))"

lemma colRowStep_behind:
  assumes "m2 \<le> m1" and "behind p q"
  shows "behind (colRowStep m1 chr p) (colRowStep m2 chr q)"
  using assms by (auto simp: colRowStep_def behind_def)

lemma fold_colRowStep_behind:
  assumes "m2 \<le> m1"
  shows "behind p q \<Longrightarrow>
    behind (fold (\<lambda>i. colRowStep m1 (f i)) is p) (fold (\<lambda>i. colRowStep m2 (f i)) is q)"
proof (induction "is" arbitrary: p q)
  case Nil
  then show ?case by simp
next
  case (Cons i "is")
  from Cons.prems have "behind (colRowStep m1 (f i) p) (colRowStep m2 (f i) q)"
    by (rule colRowStep_behind [OF assms])
  then show ?case by (simp add: Cons.IH)
qed

lemma offsetToColRow_behind:
  "m2 \<le> m1 \<Longrightarrow> behind (offsetToColRow s n m1) (offsetToColRow s n m2)"
  unfolding offsetToColRow_def
  by (rule fold_colRowStep_behind) (simp_all add: behind_def)

text \<open>
  C8. For every string and every width above zero the row count is at least 1, and a
  narrower width never gives fewer rows.
\<close>

theorem countLines_mono:
  assumes "0 < maxCols2" and "maxCols2 \<le> maxCols1"
  shows "1 \<le> countLines s maxCols1 \<and> 1 \<le> countLines s maxCols2
         \<and> countLines s maxCols1 \<le> countLines s maxCols2"
  using offsetToColRow_behind [OF assms(2), of s "length s"]
  by (auto simp: countLines_def behind_def)

theorem countLines_mono_witness:
  "(0::nat) < 2 \<and> (2::nat) \<le> 5
   \<and> countLines (js ''abcdefg'') 5 = 2 \<and> countLines (js ''abcdefg'') 2 = 3
   \<and> countLines (js ''abcdefg'') 5 \<le> countLines (js ''abcdefg'') 2"
  using countLines_mono [of 2 5 "js ''abcdefg''"]
  by (simp add: countLines_def offsetToColRow_def colRowStep_def charAt_def js_def upt_rec)

section \<open>utils.ts: word boundaries\<close>

text \<open>The class \<open>\w\<close> of a regular expression: ASCII letters, digits and the underscore.\<close>

definition isWordChar :: "16 word \<Rightarrow> bool" where
  "isWordChar c =
     ((0x41 \<le> c \<and> c \<le> 0x5A) \<or> (0x61 \<le> c \<and> c \<le> 0x7A) \<or> (0x30 \<le> c \<and> c \<le> 0x39) \<or> c = 0x5F)"

text \<open>
  The \<open>exec\<close> loop of \<open>wordBoundaries\<close> over \<open>/\w+/g\<close>, as one scan: \<open>i\<close> is the index of
  the next code unit, \<open>inWord\<close> says that a match is open. A match reports its start
  (\<open>leftSide\<close>) when it opens, or its end when it closes.
\<close>

fun wordScan :: "bool \<Rightarrow> nat \<Rightarrow> bool \<Rightarrow> jsstring \<Rightarrow> nat list" where
  "wordScan leftSide i inWord [] = (if inWord \<and> \<not> leftSide then [i] else [])"
| "wordScan leftSide i inWord (c # cs) =
     (if isWordChar c then
        (if \<not> inWord \<and> leftSide then i # wordScan leftSide (i + 1) True cs
         else wordScan leftSide (i + 1) True cs)
      else
        (if inWord \<and> \<not> leftSide then i # wordScan leftSide (i + 1) False cs
         else wordScan leftSide (i + 1) False cs))"

definition wordBoundaries :: "jsstring \<Rightarrow> bool \<Rightarrow> nat list" where
  "wordBoundaries input leftSide = wordScan leftSide 0 False input"

definition closestLeftBoundary :: "jsstring \<Rightarrow> nat \<Rightarrow> nat" where
  "closestLeftBoundary input offset =
     (case find (\<lambda>x. x < offset) (rev (wordBoundaries input True)) of
        Some found \<Rightarrow> found | None \<Rightarrow> 0)"

definition closestRightBoundary :: "jsstring \<Rightarrow> nat \<Rightarrow> nat" where
  "closestRightBoundary input offset =
     (case find (\<lambda>x. x > offset) (wordBoundaries input False) of
        Some found \<Rightarrow> found | None \<Rightarrow> length input)"

section \<open>utils.ts: incomplete input\<close>

text \<open>
  \<open>input.split(/(\|\||\||&&)/g)\<close>: the scan tries \<open>||\<close>, then \<open>|\<close>, then \<open>&&\<close> at each
  position, left to right; the array holds the segments with the captured separators
  between them. \<open>cur\<close> is the segment read so far.
\<close>

fun splitOps :: "jsstring \<Rightarrow> jsstring \<Rightarrow> jsstring list" where
  "splitOps cur [] = [cur]"
| "splitOps cur [c] = (if c = PIPE then [cur, [PIPE], []] else [cur @ [c]])"
| "splitOps cur (c # d # rest) =
     (if c = PIPE \<and> d = PIPE then cur # [PIPE, PIPE] # splitOps [] rest
      else if c = PIPE then cur # [PIPE] # splitOps [] (d # rest)
      else if c = AMP \<and> d = AMP then cur # [AMP, AMP] # splitOps [] rest
      else splitOps (cur @ [c]) (d # rest))"

text \<open>\<open>(input.match(/c/g) || []).length\<close> for a one-character pattern.\<close>

definition matchCount :: "16 word \<Rightarrow> jsstring \<Rightarrow> nat" where
  "matchCount c input = length (filter (\<lambda>x. x = c) input)"

definition isIncompleteInput :: "jsstring \<Rightarrow> bool" where
  "isIncompleteInput input =
     (if trim input = [] then False
      else if matchCount SQUOTE input mod 2 \<noteq> 0 then True
      else if matchCount DQUOTE input mod 2 \<noteq> 0 then True
      else if trim (last (splitOps [] input)) = [] then True
      else endsWith input [BACKSLASH] \<and> \<not> endsWith input [BACKSLASH, BACKSLASH])"

section \<open>utils.ts: trailing whitespace and the last token\<close>

text \<open>The line terminators before which \<open>$\<close> matches under the \<open>m\<close> flag.\<close>

definition isLineTerminator :: "16 word \<Rightarrow> bool" where
  "isLineTerminator c = (c = LF \<or> c = CR \<or> c = 0x2028 \<or> c = 0x2029)"

text \<open>
  \<open>/[^\\][ \t]$/m.test(input)\<close>: some position holds a code unit other than a backslash,
  then a space or a tab, then the end of the input or a line terminator.
\<close>

fun hasTailingWhitespace :: "jsstring \<Rightarrow> bool" where
  "hasTailingWhitespace (a # b # rest) =
     ((a \<noteq> BACKSLASH \<and> (b = SPACE \<or> b = TAB)
        \<and> (case rest of [] \<Rightarrow> True | c # _ \<Rightarrow> isLineTerminator c))
      \<or> hasTailingWhitespace (b # rest))"
| "hasTailingWhitespace _ = False"

text \<open>
  \<open>parse\<close> is the tokenizer of the package shell-quote, which is not part of this
  repository: every function that calls it takes it as the parameter \<open>parse\<close>, with the
  type the source casts its result to (\<open>string[]\<close>).
\<close>

type_synonym tokenizer = "jsstring \<Rightarrow> jsstring list"

definition getLastToken :: "tokenizer \<Rightarrow> jsstring \<Rightarrow> jsstring" where
  "getLastToken parse input =
     (if trim input = [] \<or> hasTailingWhitespace input then []
      else (case parse input of [] \<Rightarrow> [] | t # ts \<Rightarrow> last (t # ts)))"

section \<open>utils.ts: autocomplete candidates\<close>

text \<open>
  A registered callback with its bound arguments applied: from the token index and the
  tokens to the candidates, \<open>None\<close> when it throws.
\<close>

type_synonym handler = "int \<Rightarrow> jsstring list \<Rightarrow> jsstring list option"

definition collectAutocompleteCandidates ::
    "tokenizer \<Rightarrow> handler list \<Rightarrow> jsstring \<Rightarrow> jsstring list" where
  "collectAutocompleteCandidates parse callbacks input =
     (let tokens = parse input;
          index0 = int (length tokens) - 1;
          expr0 = (if tokens = [] then [] else last tokens);
          (index, expr) =
            (if trim input = [] then (0, [])
             else if hasTailingWhitespace input then (index0 + 1, [])
             else (index0, expr0))
      in filter (\<lambda>txt. startsWith txt expr)
           (fold (\<lambda>fn candidates.
                    case fn index tokens of
                      Some r \<Rightarrow> candidates @ r
                    | None \<Rightarrow> candidates)
                 callbacks []))"

section \<open>utils.ts: the shared fragment\<close>

datatype error = TypeError

text \<open>\<open>s.slice(a, b)\<close> for \<open>0 \<le> a \<le> b\<close>.\<close>

definition slice :: "jsstring \<Rightarrow> nat \<Rightarrow> nat \<Rightarrow> jsstring" where
  "slice s a b = take (b - a) (drop a s)"

text \<open>
  The \<open>for\<close> loop of \<open>getSharedFragment\<close>: it returns null (\<open>Abort\<close>), returns the old
  fragment (\<open>Shorter\<close>), or runs to its end (\<open>Extended\<close>).
\<close>

datatype scan = Abort | Shorter | Extended

fun scanCandidates :: "jsstring \<Rightarrow> jsstring \<Rightarrow> jsstring list \<Rightarrow> scan" where
  "scanCandidates oldFragment fragment [] = Extended"
| "scanCandidates oldFragment fragment (c # cs) =
     (if \<not> startsWith c oldFragment then Abort
      else if \<not> startsWith c fragment then Shorter
      else scanCandidates oldFragment fragment cs)"

text \<open>
  The result is \<open>Inr None\<close> for null and \<open>Inr (Some s)\<close> for a string; reading
  \<open>candidates[0].length\<close> of an empty array throws a TypeError.
\<close>

function getSharedFragment :: "jsstring \<Rightarrow> jsstring list \<Rightarrow> error + jsstring option" where
  "getSharedFragment fragment candidates =
     (case candidates of
        [] \<Rightarrow> Inl TypeError
      | c0 # _ \<Rightarrow>
          if length fragment \<ge> length c0 then Inr (Some fragment)
          else
            (case scanCandidates fragment
                    (fragment @ slice c0 (length fragment) (length fragment + 1)) candidates of
               Abort \<Rightarrow> Inr None
             | Shorter \<Rightarrow> Inr (Some fragment)
             | Extended \<Rightarrow>
                 getSharedFragment
                   (fragment @ slice c0 (length fragment) (length fragment + 1)) candidates))"
  by pat_completeness auto
termination
  by (relation "measure (\<lambda>(fragment, candidates). length (hd candidates) - length fragment)")
    (auto simp: slice_def)

section \<open>Properties of the utilities\<close>

text \<open>
  C2 (as the code has it). Starting from the empty fragment, the candidates list, load, ls
  share the fragment l; the candidates cat, dog share only the empty string, and the
  empty string is what is returned. Null is returned only where a candidate does not start
  with the fragment being extended, which the empty fragment never meets.
\<close>

theorem getSharedFragment_examples:
  "getSharedFragment (js '''') [js ''list'', js ''load'', js ''ls''] = Inr (Some (js ''l''))
   \<and> getSharedFragment (js '''') [js ''cat'', js ''dog''] = Inr (Some (js ''''))"
  by (simp add: js_def startsWith_def slice_def)

text \<open>
  C2 (as stated) fails: on the candidates cat, dog the result is not null.
\<close>

theorem getSharedFragment_cat_dog_not_null:
  "getSharedFragment (js '''') [js ''cat'', js ''dog''] \<noteq> Inr None"
  by (simp add: js_def startsWith_def slice_def)

text \<open>
  The last condition of \<open>isIncompleteInput\<close> in the words of the specification: the input
  ends in a backslash that no backslash precedes.
\<close>

definition unescapedTrailingBackslash :: "jsstring \<Rightarrow> bool" where
  "unescapedTrailingBackslash s =
     (case rev s of
        [] \<Rightarrow> False
      | c # r \<Rightarrow> c = BACKSLASH \<and> (case r of [] \<Rightarrow> True | d # _ \<Rightarrow> d \<noteq> BACKSLASH))"

lemma endsWith_backslash:
  "(endsWith input [BACKSLASH] \<and> \<not> endsWith input [BACKSLASH, BACKSLASH])
     = unescapedTrailingBackslash input"
proof (cases input rule: rev_cases)
  case Nil
  then show ?thesis by (simp add: endsWith_def unescapedTrailingBackslash_def)
next
  case outer: (snoc ys y)
  show ?thesis
  proof (cases ys rule: rev_cases)
    case Nil
    with outer show ?thesis by (simp add: endsWith_def unescapedTrailingBackslash_def)
  next
    case (snoc zs z)
    with outer show ?thesis by (auto simp add: endsWith_def unescapedTrailingBackslash_def)
  qed
qed

lemma matchCount_count_list: "matchCount c input = count_list input c"
  by (induction input) (auto simp: matchCount_def)

lemma mod2_odd: "(n mod 2 \<noteq> 0) = odd (n::nat)"
  by presburger

text \<open>
  C4. An input that trims to empty is complete. Any other input is incomplete exactly when
  it has an odd number of single quotes, or an odd number of double quotes, or its last
  segment after the split on the operators trims to empty, or it ends in a backslash that
  no backslash precedes. The five inputs of the specification give true, true, true (one
  trailing backslash), false and false (two trailing backslashes).
\<close>

theorem isIncompleteInput_iff:
  "(isIncompleteInput input =
     (trim input \<noteq> []
      \<and> (odd (count_list input SQUOTE) \<or> odd (count_list input DQUOTE)
         \<or> trim (last (splitOps [] input)) = [] \<or> unescapedTrailingBackslash input)))
   \<and> isIncompleteInput (js ''echo 'hello'')
   \<and> isIncompleteInput (js ''echo a &&'')
   \<and> isIncompleteInput (js ''foo '' @ [BACKSLASH])
   \<and> \<not> isIncompleteInput (js ''echo hello'')
   \<and> \<not> isIncompleteInput (js ''foo '' @ [BACKSLASH, BACKSLASH])"
proof -
  have general: "isIncompleteInput input =
     (trim input \<noteq> []
      \<and> (odd (count_list input SQUOTE) \<or> odd (count_list input DQUOTE)
         \<or> trim (last (splitOps [] input)) = [] \<or> unescapedTrailingBackslash input))"
    unfolding isIncompleteInput_def endsWith_backslash matchCount_count_list mod2_odd
    by simp
  have examples:
    "isIncompleteInput (js ''echo 'hello'')"
    "isIncompleteInput (js ''echo a &&'')"
    "isIncompleteInput (js ''foo '' @ [BACKSLASH])"
    "\<not> isIncompleteInput (js ''echo hello'')"
    "\<not> isIncompleteInput (js ''foo '' @ [BACKSLASH, BACKSLASH])"
    by (simp_all add: isIncompleteInput_def js_def trim_def isTrimSpace_def matchCount_def
        endsWith_def)
  from general examples show ?thesis by blast
qed

theorem isIncompleteInput_iff_witness:
  "isIncompleteInput (js ''ls |'') \<and> \<not> isIncompleteInput (js ''ls'')
   \<and> \<not> isIncompleteInput (js ''  '')
   \<and> \<not> isIncompleteInput (js ''x'' @ [BACKSLASH, BACKSLASH, BACKSLASH])"
  using isIncompleteInput_iff [of "js ''ls |''"] isIncompleteInput_iff [of "js ''ls''"]
    isIncompleteInput_iff [of "js ''  ''"]
    isIncompleteInput_iff [of "js ''x'' @ [BACKSLASH, BACKSLASH, BACKSLASH]"]
  by (simp add: js_def trim_def isTrimSpace_def unescapedTrailingBackslash_def)

text \<open>
  C7, evaluated on the code. The input of two lines, a followed by a space, then b, does
  not end in a space or a tab, and its last line b alone has no trailing whitespace; the
  function still returns true, for the space that ends the first line. The same holds
  for a buffer that the controller builds itself: ls, a pipe and a space, the line break
  of the continuation, then gr.
\<close>

theorem hasTailingWhitespace_earlier_line:
  "hasTailingWhitespace (js ''a \<newline>b'')
   \<and> \<not> hasTailingWhitespace (js ''b'')
   \<and> last (js ''a \<newline>b'') \<noteq> SPACE \<and> last (js ''a \<newline>b'') \<noteq> TAB
   \<and> isIncompleteInput (js ''ls | '')
   \<and> hasTailingWhitespace (js ''ls | \<newline>gr'')
   \<and> \<not> hasTailingWhitespace (js ''gr'')"
  by (simp add: js_def isLineTerminator_def isIncompleteInput_def trim_def isTrimSpace_def
      matchCount_def)

section \<open>HistoryController\<close>

text \<open>
  The class \<open>HistoryController\<close>: the capacity \<open>size\<close> (here \<open>size_h\<close>), the stored
  \<open>entries\<close>, oldest first, and the browse \<open>cursor\<close>. The capacity and the cursor are
  JavaScript numbers holding integers.
\<close>

record history =
  size_h :: int
  entries :: "jsstring list"
  cursor :: int

definition HistoryController :: "int \<Rightarrow> history" where
  "HistoryController size0 = \<lparr>size_h = size0, entries = [], cursor = 0\<rparr>"

text \<open>\<open>entries[idx]\<close>: \<open>None\<close> is undefined, the value of a read out of range.\<close>

definition entryAt :: "jsstring list \<Rightarrow> int \<Rightarrow> jsstring option" where
  "entryAt es idx = (if 0 \<le> idx \<and> idx < int (length es) then Some (es ! nat idx) else None)"

definition push :: "jsstring \<Rightarrow> history \<Rightarrow> history" where
  "push entry h =
     (if trim entry = [] then h
      else if entryAt (entries h) (int (length (entries h)) - 1) = Some entry then h
      else
        (let pushed = entries h @ [entry];
             kept = (if int (length pushed) > size_h h then tl pushed else pushed)
         in h\<lparr>entries := kept, cursor := int (length kept)\<rparr>))"

definition rewind :: "history \<Rightarrow> history" where
  "rewind h = h\<lparr>cursor := int (length (entries h))\<rparr>"

definition getPrevious :: "history \<Rightarrow> jsstring option \<times> history" where
  "getPrevious h =
     (let idx = max 0 (cursor h - 1)
      in (entryAt (entries h) idx, h\<lparr>cursor := idx\<rparr>))"

definition getNext :: "history \<Rightarrow> jsstring option \<times> history" where
  "getNext h =
     (let idx = min (int (length (entries h))) (cursor h + 1)
      in (entryAt (entries h) idx, h\<lparr>cursor := idx\<rparr>))"

text \<open>The calls a client can make, and a run of them.\<close>

datatype history_op = Push jsstring | Rewind | GetPrevious | GetNext

fun history_step :: "history_op \<Rightarrow> history \<Rightarrow> history" where
  "history_step (Push entry) h = push entry h"
| "history_step Rewind h = rewind h"
| "history_step GetPrevious h = snd (getPrevious h)"
| "history_step GetNext h = snd (getNext h)"

definition history_run :: "history_op list \<Rightarrow> history \<Rightarrow> history" where
  "history_run ops h = fold history_step ops h"

section \<open>Properties of the history\<close>

lemma entryAt_last:
  "(entryAt es (int (length es) - 1) = Some entry) = (es \<noteq> [] \<and> last es = entry)"
  by (cases es rule: rev_cases) (auto simp: entryAt_def nth_append)

text \<open>
  C5. With capacity N: a push of an entry that trims to empty, or that equals the last
  stored entry, changes nothing. Any other push appends the entry, drops the oldest entry
  when the length would exceed N, leaves the capacity alone and sets the cursor to the new
  length.
\<close>

theorem push_spec:
  "(trim entry = [] \<or> (entries h \<noteq> [] \<and> last (entries h) = entry) \<longrightarrow> push entry h = h)
   \<and> (trim entry \<noteq> [] \<and> (entries h = [] \<or> last (entries h) \<noteq> entry) \<longrightarrow>
        (int (length (entries h)) + 1 \<le> size_h h \<longrightarrow>
           entries (push entry h) = entries h @ [entry])
        \<and> (int (length (entries h)) + 1 > size_h h \<longrightarrow>
           entries (push entry h) = tl (entries h @ [entry]))
        \<and> cursor (push entry h) = int (length (entries (push entry h)))
        \<and> size_h (push entry h) = size_h h)"
  by (auto simp: push_def entryAt_last Let_def)

theorem push_spec_witness:
  "push (js ''  '') \<lparr>size_h = 2, entries = [js ''a'', js ''b''], cursor = 1\<rparr>
     = \<lparr>size_h = 2, entries = [js ''a'', js ''b''], cursor = 1\<rparr>
   \<and> push (js ''b'') \<lparr>size_h = 2, entries = [js ''a'', js ''b''], cursor = 1\<rparr>
     = \<lparr>size_h = 2, entries = [js ''a'', js ''b''], cursor = 1\<rparr>
   \<and> entries (push (js ''b'') \<lparr>size_h = 2, entries = [js ''a''], cursor = 0\<rparr>)
     = [js ''a'', js ''b'']
   \<and> entries (push (js ''c'') \<lparr>size_h = 2, entries = [js ''a'', js ''b''], cursor = 1\<rparr>)
     = [js ''b'', js ''c'']
   \<and> cursor (push (js ''c'') \<lparr>size_h = 2, entries = [js ''a'', js ''b''], cursor = 1\<rparr>) = 2"
  using push_spec [of "js ''  ''" "\<lparr>size_h = 2, entries = [js ''a'', js ''b''], cursor = 1\<rparr>"]
    push_spec [of "js ''b''" "\<lparr>size_h = 2, entries = [js ''a'', js ''b''], cursor = 1\<rparr>"]
    push_spec [of "js ''b''" "\<lparr>size_h = 2, entries = [js ''a''], cursor = 0\<rparr>"]
    push_spec [of "js ''c''" "\<lparr>size_h = 2, entries = [js ''a'', js ''b''], cursor = 1\<rparr>"]
  by (simp add: js_def trim_def isTrimSpace_def)

text \<open>The cursor invariant, kept by every call.\<close>

definition cursor_ok :: "history \<Rightarrow> bool" where
  "cursor_ok h = (0 \<le> cursor h \<and> cursor h \<le> int (length (entries h)))"

lemma cursor_ok_new: "cursor_ok (HistoryController n)"
  by (simp add: cursor_ok_def HistoryController_def)

lemma cursor_ok_step: "cursor_ok h \<Longrightarrow> cursor_ok (history_step op h)"
  by (cases op)
    (auto simp: cursor_ok_def push_def rewind_def getPrevious_def getNext_def Let_def)

lemma cursor_ok_fold: "cursor_ok h \<Longrightarrow> cursor_ok (fold history_step ops h)"
  by (induction ops arbitrary: h) (simp_all add: cursor_ok_step)

lemma getPrevious_at_0: "cursor h = 0 \<Longrightarrow> snd (getPrevious h) = h"
  by (simp add: getPrevious_def)

lemma getNext_at_end: "cursor h = int (length (entries h)) \<Longrightarrow> getNext h = (None, h)"
  by (simp add: getNext_def entryAt_def)

text \<open>
  C9. After any run of push, rewind, getPrevious and getNext on a fresh history, the
  cursor lies between 0 and the number of entries. There, getPrevious at cursor 0 leaves
  the history as it is, and getNext at the cursor past the end returns undefined and
  leaves the history as it is, so that repeating either call changes nothing.
\<close>

theorem history_cursor_invariant:
  "0 \<le> cursor (history_run ops (HistoryController n))
   \<and> cursor (history_run ops (HistoryController n))
       \<le> int (length (entries (history_run ops (HistoryController n))))
   \<and> (cursor (history_run ops (HistoryController n)) = 0 \<longrightarrow>
        snd (getPrevious (history_run ops (HistoryController n)))
          = history_run ops (HistoryController n))
   \<and> (cursor (history_run ops (HistoryController n))
        = int (length (entries (history_run ops (HistoryController n)))) \<longrightarrow>
        getNext (history_run ops (HistoryController n))
          = (None, history_run ops (HistoryController n)))"
  using cursor_ok_fold [OF cursor_ok_new, of ops n]
  by (auto simp: history_run_def cursor_ok_def getPrevious_at_0 getNext_at_end)

theorem history_cursor_invariant_witness:
  "history_run [Push (js ''a''), Push (js ''b''), GetPrevious, GetPrevious] (HistoryController 10)
     = \<lparr>size_h = 10, entries = [js ''a'', js ''b''], cursor = 0\<rparr>
   \<and> snd (getPrevious \<lparr>size_h = 10, entries = [js ''a'', js ''b''], cursor = 0\<rparr>)
     = \<lparr>size_h = 10, entries = [js ''a'', js ''b''], cursor = 0\<rparr>
   \<and> history_run [Push (js ''a''), GetPrevious, GetNext] (HistoryController 10)
     = \<lparr>size_h = 10, entries = [js ''a''], cursor = 1\<rparr>
   \<and> getNext \<lparr>size_h = 10, entries = [js ''a''], cursor = 1\<rparr>
     = (None, \<lparr>size_h = 10, entries = [js ''a''], cursor = 1\<rparr>)"
proof -
  have r1: "history_run [Push (js ''a''), Push (js ''b''), GetPrevious, GetPrevious]
      (HistoryController 10) = \<lparr>size_h = 10, entries = [js ''a'', js ''b''], cursor = 0\<rparr>"
    by (simp add: history_run_def HistoryController_def push_def getPrevious_def entryAt_def
        js_def trim_def isTrimSpace_def)
  have r2: "history_run [Push (js ''a''), GetPrevious, GetNext] (HistoryController 10)
      = \<lparr>size_h = 10, entries = [js ''a''], cursor = 1\<rparr>"
    by (simp add: history_run_def HistoryController_def push_def getPrevious_def getNext_def
        entryAt_def js_def trim_def isTrimSpace_def)
  from history_cursor_invariant
    [of "[Push (js ''a''), Push (js ''b''), GetPrevious, GetPrevious]" 10]
    history_cursor_invariant [of "[Push (js ''a''), GetPrevious, GetNext]" 10]
  show ?thesis unfolding r1 r2 by simp
qed

section \<open>LocalEchoController: state\<close>

text \<open>
  A call either returns, throws, or never returns. Only the row loop of \<open>printWide\<close> can
  run forever, and only \<open>getSharedFragment\<close> on an empty array throws.
\<close>

datatype 'a outcome = Returns 'a | Throws error | Diverges

fun andThen :: "'a outcome \<Rightarrow> ('a \<Rightarrow> 'b outcome) \<Rightarrow> 'b outcome" where
  "andThen (Returns x) f = f x"
| "andThen (Throws e) f = Throws e"
| "andThen Diverges f = Diverges"

record TermSize =
  cols :: nat
  rows :: nat

text \<open>
  A promise handed out by \<open>read\<close> or \<open>readChar\<close> is a number; \<open>settled\<close> logs how each
  was settled. The prompt objects hold the \<open>resolve\<close> and \<open>reject\<close> functions of their
  promise, modelled by the promise itself. The reactions that the controller chains on
  the promise of its own \<open>readChar\<close> call (tab completion above the limit) are the list
  \<open>thens\<close>: print the candidates when the answer is y or Y, then resume the prompt with
  the saved cursor.
\<close>

datatype settlement = Resolved jsstring | Rejected jsstring

datatype reaction = PrintIfYes "jsstring list" | Resume nat

record ActivePrompt =
  prompt :: jsstring
  continuationPrompt :: jsstring
  promise :: nat

record ActiveCharPrompt =
  charPrompt :: jsstring
  charPromise :: nat
  thens :: "reaction list"

text \<open>
  The fields of the controller. \<open>hasTerm\<close> says that \<open>term\<close> is not null, \<open>written\<close> holds
  the arguments of the calls of \<open>term.write\<close>, oldest first, and \<open>promises\<close> counts the
  promises created so far. A field \<open>_x\<close> of the source is \<open>u_x\<close> here.
\<close>

record engine =
  hasTerm :: bool
  written :: "jsstring list"
  history :: history
  maxAutocompleteEntries :: nat
  u_autocompleteHandlers :: "handler list"
  u_active :: bool
  u_input :: jsstring
  u_cursor :: nat
  u_activePrompt :: "ActivePrompt option"
  u_activeCharPrompt :: "ActiveCharPrompt option"
  u_termSize :: TermSize
  settled :: "(nat \<times> settlement) list"
  promises :: nat

text \<open>
  The constructor, with \<open>attach\<close>: \<open>term\<close> is the size of the terminal passed in, or
  \<open>None\<close> for null; an option that is absent or 0 takes its default.
\<close>

definition LocalEchoController :: "TermSize option \<Rightarrow> int option \<Rightarrow> nat option \<Rightarrow> engine" where
  "LocalEchoController term historySize maxEntries =
     \<lparr>hasTerm = (term \<noteq> None),
      written = [],
      history = HistoryController
        (case historySize of None \<Rightarrow> 10 | Some n \<Rightarrow> if n = 0 then 10 else n),
      maxAutocompleteEntries =
        (case maxEntries of None \<Rightarrow> 100 | Some n \<Rightarrow> if n = 0 then 100 else n),
      u_autocompleteHandlers = [],
      u_active = False,
      u_input = [],
      u_cursor = 0,
      u_activePrompt = None,
      u_activeCharPrompt = None,
      u_termSize = (case term of None \<Rightarrow> \<lparr>cols = 0, rows = 0\<rparr> | Some sz \<Rightarrow> sz),
      settled = [],
      promises = 0\<rparr>"

definition addAutocompleteHandler :: "handler \<Rightarrow> engine \<Rightarrow> engine" where
  "addAutocompleteHandler fn s =
     s\<lparr>u_autocompleteHandlers := u_autocompleteHandlers s @ [fn]\<rparr>"

section \<open>LocalEchoController: output\<close>

text \<open>\<open>if (this.term) this.term.write(text)\<close>, once and \<open>n\<close> times.\<close>

definition termWrite :: "jsstring \<Rightarrow> engine \<Rightarrow> engine" where
  "termWrite text s = (if hasTerm s then s\<lparr>written := written s @ [text]\<rparr> else s)"

definition termWriteTimes :: "nat \<Rightarrow> jsstring \<Rightarrow> engine \<Rightarrow> engine" where
  "termWriteTimes n text s =
     (if hasTerm s then s\<lparr>written := written s @ replicate n text\<rparr> else s)"

text \<open>
  \<open>message.replace(/[\r\n]+/g, rep)\<close>: every maximal run of CR and LF becomes \<open>rep\<close>;
  \<open>inRun\<close> says that the previous code unit belonged to a run. The source calls it with
  the constants LF and CR only, which hold no dollar sign and stand for themselves.
\<close>

fun replaceNewlineRuns :: "jsstring \<Rightarrow> bool \<Rightarrow> jsstring \<Rightarrow> jsstring" where
  "replaceNewlineRuns rep inRun [] = []"
| "replaceNewlineRuns rep inRun (c # cs) =
     (if c = CR \<or> c = LF then
        (if inRun then replaceNewlineRuns rep True cs
         else rep @ replaceNewlineRuns rep True cs)
      else c # replaceNewlineRuns rep False cs)"

text \<open>
  The replacement string of \<open>replace\<close> is a template: \<open>$$\<close> stands for a dollar sign,
  \<open>$&\<close> for the match, a dollar sign and a backtick for the text before the match, a
  dollar sign and a single quote for the text after it. The patterns of this program have
  no capture group, so that any other dollar sign stands for itself.
\<close>

abbreviation DOLLAR :: "16 word" where "DOLLAR \<equiv> 0x24"
abbreviation BACKTICK :: "16 word" where "BACKTICK \<equiv> 0x60"

fun getSubstitution :: "jsstring \<Rightarrow> jsstring \<Rightarrow> jsstring \<Rightarrow> jsstring \<Rightarrow> jsstring" where
  "getSubstitution matched before after [] = []"
| "getSubstitution matched before after [c] = [c]"
| "getSubstitution matched before after (c # d # rest) =
     (if c = DOLLAR \<and> d = DOLLAR then DOLLAR # getSubstitution matched before after rest
      else if c = DOLLAR \<and> d = AMP then matched @ getSubstitution matched before after rest
      else if c = DOLLAR \<and> d = BACKTICK then before @ getSubstitution matched before after rest
      else if c = DOLLAR \<and> d = SQUOTE then after @ getSubstitution matched before after rest
      else c # getSubstitution matched before after (d # rest))"

text \<open>
  \<open>s.replace(/\n/g, rep)\<close>: every line feed becomes the expansion of \<open>rep\<close> at that
  match; \<open>before\<close> is the part of \<open>s\<close> already passed.
\<close>

fun replaceEachNewline :: "jsstring \<Rightarrow> jsstring \<Rightarrow> jsstring \<Rightarrow> jsstring" where
  "replaceEachNewline rep before [] = []"
| "replaceEachNewline rep before (c # cs) =
     (if c = LF then
        getSubstitution [LF] before cs rep @ replaceEachNewline rep (before @ [c]) cs
      else c # replaceEachNewline rep (before @ [c]) cs)"

definition replaceNewlines :: "jsstring \<Rightarrow> jsstring \<Rightarrow> jsstring" where
  "replaceNewlines rep s = replaceEachNewline rep [] s"

definition print :: "jsstring \<Rightarrow> engine \<Rightarrow> engine" where
  "print message s =
     (let normInput = replaceNewlineRuns [LF] False message
      in termWrite (replaceNewlines [CR, LF] normInput) s)"

definition println :: "jsstring \<Rightarrow> engine \<Rightarrow> engine" where
  "println message s = print (message @ [LF]) s"

section \<open>LocalEchoController: printWide\<close>

text \<open>
  The numbers of \<open>printWide\<close>: a quotient of two naturals is a natural, Infinity (a
  positive number over 0), or NaN (0 over 0). The sizes are taken small enough for the
  floating-point quotient to round to the right integer.
\<close>

datatype jsnum = Fin nat | Infinity | NaN

text \<open>\<open>Math.floor(a / b)\<close> for naturals \<open>a\<close>, \<open>b\<close>.\<close>

definition floorDiv :: "nat \<Rightarrow> nat \<Rightarrow> jsnum" where
  "floorDiv a b = (if b = 0 then (if a = 0 then NaN else Infinity) else Fin (a div b))"

text \<open>\<open>Math.ceil(n / d)\<close> for a natural \<open>n\<close>.\<close>

fun ceilDiv :: "nat \<Rightarrow> jsnum \<Rightarrow> jsnum" where
  "ceilDiv n (Fin d) =
     (if d = 0 then (if n = 0 then NaN else Infinity) else Fin ((n + d - 1) div d))"
| "ceilDiv n Infinity = Fin 0"
| "ceilDiv n NaN = NaN"

text \<open>\<open>i < x\<close> for a loop counter \<open>i\<close>.\<close>

fun lessNum :: "nat \<Rightarrow> jsnum \<Rightarrow> bool" where
  "lessNum i (Fin n) = (i < n)"
| "lessNum i Infinity = True"
| "lessNum i NaN = False"

text \<open>
  The inner loop of \<open>printWide\<close>, for \<open>n\<close> more columns: every item is padded with spaces
  to \<open>itemWidth\<close> and appended to the row.
\<close>

fun printWideCols ::
    "jsstring list \<Rightarrow> nat \<Rightarrow> nat \<Rightarrow> jsstring \<times> nat \<Rightarrow> jsstring \<times> nat" where
  "printWideCols items itemWidth 0 (rowStr, i) = (rowStr, i)"
| "printWideCols items itemWidth (Suc n) (rowStr, i) =
     (if i < length items then
        printWideCols items itemWidth n
          (rowStr @ items ! i @ replicate (itemWidth - length (items ! i)) SPACE, i + 1)
      else printWideCols items itemWidth n (rowStr, i))"

text \<open>
  The inner loop for the column count \<open>wideCols\<close>: it never ends when the count is
  Infinity (\<open>None\<close>), and does not run when it is NaN.
\<close>

fun printWideRow :: "jsstring list \<Rightarrow> nat \<Rightarrow> jsnum \<Rightarrow> nat \<Rightarrow> (jsstring \<times> nat) option" where
  "printWideRow items itemWidth (Fin c) i = Some (printWideCols items itemWidth c ([], i))"
| "printWideRow items itemWidth Infinity i = None"
| "printWideRow items itemWidth NaN i = Some ([], i)"

text \<open>The outer loop, from row \<open>r\<close> and item \<open>i\<close>; \<open>None\<close> when it never ends.\<close>

partial_function (option) printWideRows ::
    "jsstring list \<Rightarrow> nat \<Rightarrow> jsnum \<Rightarrow> jsnum \<Rightarrow> nat \<Rightarrow> nat \<Rightarrow> engine \<Rightarrow> engine option" where
  "printWideRows items itemWidth wideCols wideRows r i s =
     (if lessNum r wideRows then
        (case printWideRow items itemWidth wideCols i of
           None \<Rightarrow> None
         | Some (rowStr, i') \<Rightarrow>
             printWideRows items itemWidth wideCols wideRows (r + 1) i' (println rowStr s))
      else Some s)"

definition printWide :: "jsstring list \<Rightarrow> nat \<Rightarrow> engine \<Rightarrow> engine outcome" where
  "printWide items padding s =
     (if length items = 0 then Returns (println [] s)
      else
        (let itemWidth = fold (\<lambda>item width. max width (length item)) items 0 + padding;
             wideCols = floorDiv (cols (u_termSize s)) itemWidth;
             wideRows = ceilDiv (length items) wideCols
         in case printWideRows items itemWidth wideCols wideRows 0 0 s of
              None \<Rightarrow> Diverges
            | Some s' \<Rightarrow> Returns s'))"

section \<open>LocalEchoController: prompts and redraw\<close>

text \<open>An escape sequence: the escape code unit, then the given characters.\<close>

definition esc :: "string \<Rightarrow> jsstring" where
  "esc s = ESC # js s"

definition applyPrompts :: "jsstring \<Rightarrow> engine \<Rightarrow> jsstring" where
  "applyPrompts input s =
     (let promptText = (case u_activePrompt s of None \<Rightarrow> [] | Some p \<Rightarrow> prompt p);
          continuationText =
            (case u_activePrompt s of None \<Rightarrow> [] | Some p \<Rightarrow> continuationPrompt p)
      in promptText @ replaceNewlines (LF # continuationText) input)"

definition applyPromptOffset :: "jsstring \<Rightarrow> nat \<Rightarrow> engine \<Rightarrow> nat" where
  "applyPromptOffset input offset s = length (applyPrompts (take offset input) s)"

text \<open>
  A loop \<open>for (i = a; i < b; ++i)\<close> runs \<open>b - a\<close> times, and not at all when \<open>b < a\<close>: the
  truncating subtraction of the naturals.
\<close>

definition clearInput :: "engine \<Rightarrow> engine" where
  "clearInput s =
     (let currentPrompt = applyPrompts (u_input s) s;
          allRows = countLines currentPrompt (cols (u_termSize s));
          promptCursor = applyPromptOffset (u_input s) (u_cursor s) s;
          pos = offsetToColRow currentPrompt promptCursor (cols (u_termSize s));
          moveRows = allRows - row pos - 1;
          s1 = termWriteTimes moveRows (esc ''[E'') s;
          s2 = termWrite (CR # esc ''[K'') s1
      in termWriteTimes (allRows - 1) (esc ''[F'' @ esc ''[K'') s2)"

definition setInput :: "jsstring \<Rightarrow> bool \<Rightarrow> engine \<Rightarrow> engine" where
  "setInput newInput clear s =
     (let s1 = (if clear then clearInput s else s);
          newPrompt = applyPrompts newInput s1;
          s2 = print newPrompt s1;
          s3 = (if u_cursor s2 > length newInput then s2\<lparr>u_cursor := length newInput\<rparr> else s2);
          newCursor = applyPromptOffset newInput (u_cursor s3) s3;
          newLines = countLines newPrompt (cols (u_termSize s3));
          pos = offsetToColRow newPrompt newCursor (cols (u_termSize s3));
          moveUpRows = newLines - row pos - 1;
          s4 = termWrite [CR] s3;
          s5 = termWriteTimes moveUpRows (esc ''[F'') s4;
          s6 = termWriteTimes (col pos) (esc ''[C'') s5
      in s6\<lparr>u_input := newInput\<rparr>)"

definition setCursor :: "int \<Rightarrow> engine \<Rightarrow> engine" where
  "setCursor newCursor s =
     (let c1 = (if newCursor < 0 then 0 else newCursor);
          c2 = (if c1 > int (length (u_input s)) then int (length (u_input s)) else c1);
          inputWithPrompt = applyPrompts (u_input s) s;
          prevPromptOffset = applyPromptOffset (u_input s) (u_cursor s) s;
          prev = offsetToColRow inputWithPrompt prevPromptOffset (cols (u_termSize s));
          newPromptOffset = applyPromptOffset (u_input s) (nat c2) s;
          new = offsetToColRow inputWithPrompt newPromptOffset (cols (u_termSize s));
          s1 = (if row new > row prev then termWriteTimes (row new - row prev) (esc ''[B'') s
                else termWriteTimes (row prev - row new) (esc ''[A'') s);
          s2 = (if col new > col prev then termWriteTimes (col new - col prev) (esc ''[C'') s1
                else termWriteTimes (col prev - col new) (esc ''[D'') s1)
      in s2\<lparr>u_cursor := nat c2\<rparr>)"

section \<open>LocalEchoController: editing\<close>

definition handleCursorMove :: "int \<Rightarrow> engine \<Rightarrow> engine" where
  "handleCursorMove dir s =
     (if dir > 0 then
        (let num = min dir (int (length (u_input s)) - int (u_cursor s))
         in setCursor (int (u_cursor s) + num) s)
      else if dir < 0 then
        (let num = max dir (- int (u_cursor s))
         in setCursor (int (u_cursor s) + num) s)
      else s)"

definition handleCursorErase :: "bool \<Rightarrow> engine \<Rightarrow> engine" where
  "handleCursorErase backspace s =
     (if backspace then
        (if u_cursor s \<le> 0 then s
         else
           (let newInput = take (u_cursor s - 1) (u_input s) @ drop (u_cursor s) (u_input s);
                s1 = clearInput s;
                s2 = s1\<lparr>u_cursor := u_cursor s1 - 1\<rparr>
            in setInput newInput False s2))
      else
        (let newInput = take (u_cursor s) (u_input s) @ drop (u_cursor s + 1) (u_input s)
         in setInput newInput True s))"

definition handleCursorInsert :: "jsstring \<Rightarrow> engine \<Rightarrow> engine" where
  "handleCursorInsert data s =
     (let newInput = take (u_cursor s) (u_input s) @ data @ drop (u_cursor s) (u_input s);
          s1 = s\<lparr>u_cursor := u_cursor s + length data\<rparr>
      in setInput newInput True s1)"

definition handleReadComplete :: "engine \<Rightarrow> engine" where
  "handleReadComplete s =
     (let s1 = s\<lparr>history := push (u_input s) (history s)\<rparr>;
          s2 = (case u_activePrompt s1 of
                  None \<Rightarrow> s1
                | Some p \<Rightarrow>
                    s1\<lparr>settled := settled s1 @ [(promise p, Resolved (u_input s1))],
                       u_activePrompt := None\<rparr>);
          s3 = termWrite [CR, LF] s2
      in s3\<lparr>u_active := False\<rparr>)"

definition handleTermResize :: "TermSize \<Rightarrow> engine \<Rightarrow> engine" where
  "handleTermResize data s =
     (let s1 = clearInput s;
          s2 = s1\<lparr>u_termSize := data\<rparr>
      in setInput (u_input s2) False s2)"

section \<open>LocalEchoController: reads\<close>

text \<open>\<open>read\<close> and \<open>readChar\<close> return the new promise with the state.\<close>

definition read :: "jsstring \<Rightarrow> jsstring \<Rightarrow> engine \<Rightarrow> nat \<times> engine" where
  "read promptText continuationText s =
     (let s1 = termWrite promptText s
      in (promises s,
          s1\<lparr>u_activePrompt :=
                Some \<lparr>prompt = promptText, continuationPrompt = continuationText,
                      promise = promises s\<rparr>,
             u_input := [],
             u_cursor := 0,
             u_active := True,
             promises := promises s + 1\<rparr>))"

definition readChar :: "jsstring \<Rightarrow> engine \<Rightarrow> nat \<times> engine" where
  "readChar promptText s =
     (let s1 = termWrite promptText s
      in (promises s,
          s1\<lparr>u_activeCharPrompt :=
                Some \<lparr>charPrompt = promptText, charPromise = promises s, thens = []\<rparr>,
             promises := promises s + 1\<rparr>))"

definition abortRead :: "jsstring \<Rightarrow> engine \<Rightarrow> engine" where
  "abortRead reason s =
     (let s1 = (if u_activePrompt s \<noteq> None \<or> u_activeCharPrompt s \<noteq> None
                then termWrite [CR, LF] s else s);
          s2 = (case u_activePrompt s1 of
                  None \<Rightarrow> s1
                | Some p \<Rightarrow>
                    s1\<lparr>settled := settled s1 @ [(promise p, Rejected reason)],
                       u_activePrompt := None\<rparr>);
          s3 = (case u_activeCharPrompt s2 of
                  None \<Rightarrow> s2
                | Some p \<Rightarrow>
                    s2\<lparr>settled := settled s2 @ [(charPromise p, Rejected reason)],
                       u_activeCharPrompt := None\<rparr>)
      in s3\<lparr>u_active := False\<rparr>)"

section \<open>LocalEchoController: print and restart the prompt\<close>

text \<open>The closure \<open>resume\<close> of \<open>printAndRestartPrompt\<close>, with the cursor it saved.\<close>

definition resume :: "nat \<Rightarrow> engine \<Rightarrow> engine" where
  "resume cursor0 s = (let s1 = s\<lparr>u_cursor := cursor0\<rparr> in setInput (u_input s1) True s1)"

text \<open>\<open>.then(r)\<close> on the promise of the pending char prompt.\<close>

definition chain :: "reaction \<Rightarrow> engine \<Rightarrow> engine" where
  "chain r s =
     s\<lparr>u_activeCharPrompt := map_option (\<lambda>p. p\<lparr>thens := thens p @ [r]\<rparr>) (u_activeCharPrompt s)\<rparr>"

text \<open>
  A callback of \<open>printAndRestartPrompt\<close> returns the state and whether it returned a
  promise (then \<open>resume\<close> is chained on it) or undefined (then \<open>resume\<close> runs at once).
\<close>

definition printAndRestartPrompt ::
    "(engine \<Rightarrow> (bool \<times> engine) outcome) \<Rightarrow> engine \<Rightarrow> engine outcome" where
  "printAndRestartPrompt callback s =
     (let cursor0 = u_cursor s;
          s1 = setCursor (int (length (u_input s))) s;
          s2 = termWrite [CR, LF] s1
      in andThen (callback s2)
           (\<lambda>(isPromise, s3).
              if isPromise then Returns (chain (Resume cursor0) s3)
              else Returns (resume cursor0 s3)))"

text \<open>The decimal digits of a number, for the template string of the confirmation.\<close>

function showNat :: "nat \<Rightarrow> jsstring" where
  "showNat n =
     (if n < 10 then [0x30 + of_nat n] else showNat (n div 10) @ [0x30 + of_nat (n mod 10)])"
  by pat_completeness auto
termination
  by (relation "measure (\<lambda>n. n)") auto

text \<open>The two callbacks of the tab key: list the candidates, or ask first.\<close>

definition listCandidates :: "jsstring list \<Rightarrow> engine \<Rightarrow> (bool \<times> engine) outcome" where
  "listCandidates candidates s = andThen (printWide candidates 2 s) (\<lambda>s'. Returns (False, s'))"

definition confirmCandidates :: "jsstring list \<Rightarrow> engine \<Rightarrow> (bool \<times> engine) outcome" where
  "confirmCandidates candidates s =
     (let question = js ''Display all '' @ showNat (length candidates)
                     @ js '' possibilities? (y or n)''
      in Returns (True, chain (PrintIfYes candidates) (snd (readChar question s))))"

text \<open>
  The reactions run when the char prompt is resolved with \<open>yn\<close>, after the handler that
  resolved it has returned.
\<close>

fun runReaction :: "jsstring \<Rightarrow> reaction \<Rightarrow> engine \<Rightarrow> engine outcome" where
  "runReaction yn (PrintIfYes candidates) s =
     (if yn = js ''y'' \<or> yn = js ''Y'' then printWide candidates 2 s else Returns s)"
| "runReaction yn (Resume cursor0) s = Returns (resume cursor0 s)"

fun runReactions :: "jsstring \<Rightarrow> reaction list \<Rightarrow> engine \<Rightarrow> engine outcome" where
  "runReactions yn [] s = Returns s"
| "runReactions yn (r # rs) s = andThen (runReaction yn r s) (runReactions yn rs)"

section \<open>LocalEchoController: terminal input\<close>

text \<open>The tab key of \<open>handleData\<close>.\<close>

definition handleTab :: "tokenizer \<Rightarrow> engine \<Rightarrow> engine outcome" where
  "handleTab parse s =
     (if length (u_autocompleteHandlers s) > 0 then
        (let inputFragment = take (u_cursor s) (u_input s);
             hasTailingSpace = hasTailingWhitespace inputFragment;
             candidates =
               sort (collectAutocompleteCandidates parse (u_autocompleteHandlers s) inputFragment)
         in if length candidates = 0 then
              (if \<not> hasTailingSpace then Returns (handleCursorInsert [SPACE] s) else Returns s)
            else if length candidates = 1 then
              (let lastToken = getLastToken parse inputFragment
               in Returns (handleCursorInsert (drop (length lastToken) (candidates ! 0) @ [SPACE]) s))
            else if length candidates \<le> maxAutocompleteEntries s then
              (case getSharedFragment inputFragment candidates of
                 Inl e \<Rightarrow> Throws e
               | Inr sharedFragment \<Rightarrow>
                   (let s1 =
                      (case sharedFragment of
                         None \<Rightarrow> s
                       | Some fragment \<Rightarrow>
                           if fragment \<noteq> [] then
                             (let lastToken = getLastToken parse inputFragment
                              in handleCursorInsert (drop (length lastToken) fragment) s)
                           else s)
                    in printAndRestartPrompt (listCandidates candidates) s1))
            else printAndRestartPrompt (confirmCandidates candidates) s)
      else Returns (handleCursorInsert (js ''    '') s))"

text \<open>The escape sequences of \<open>handleData\<close>: \<open>seq\<close> is \<open>data.substr(1)\<close>.\<close>

definition handleEscape :: "jsstring \<Rightarrow> engine \<Rightarrow> engine" where
  "handleEscape seq s =
     (if seq = js ''[A'' then
        (let (val, h) = getPrevious (history s);
             s1 = s\<lparr>history := h\<rparr>
         in case val of
              None \<Rightarrow> s1
            | Some v \<Rightarrow> if v \<noteq> [] then setCursor (int (length v)) (setInput v True s1) else s1)
      else if seq = js ''[B'' then
        (let (val, h) = getNext (history s);
             s1 = s\<lparr>history := h\<rparr>;
             v = (case val of None \<Rightarrow> [] | Some v \<Rightarrow> v)
         in setCursor (int (length v)) (setInput v True s1))
      else if seq = js ''[D'' then handleCursorMove (- 1) s
      else if seq = js ''[C'' then handleCursorMove 1 s
      else if seq = js ''[3~'' then handleCursorErase False s
      else if seq = js ''[F'' then setCursor (int (length (u_input s))) s
      else if seq = js ''[H'' then setCursor 0 s
      else if seq = js ''b'' then
        setCursor (int (closestLeftBoundary (u_input s) (u_cursor s))) s
      else if seq = js ''f'' then
        setCursor (int (closestRightBoundary (u_input s) (u_cursor s))) s
      else if seq = [DEL] then
        (let ofs = closestLeftBoundary (u_input s) (u_cursor s);
             s1 = setInput (take ofs (u_input s) @ drop (u_cursor s) (u_input s)) True s
         in setCursor (int ofs) s1)
      else s)"

text \<open>The control characters of \<open>handleData\<close>.\<close>

definition handleControl :: "tokenizer \<Rightarrow> jsstring \<Rightarrow> engine \<Rightarrow> engine outcome" where
  "handleControl parse data s =
     (if data = [CR] then
        (if isIncompleteInput (u_input s) then Returns (handleCursorInsert [LF] s)
         else Returns (handleReadComplete s))
      else if data = [DEL] then Returns (handleCursorErase True s)
      else if data = [TAB] then handleTab parse s
      else if data = [0x03] then
        (let s1 = setCursor (int (length (u_input s))) s;
             promptText = (case u_activePrompt s1 of None \<Rightarrow> [] | Some p \<Rightarrow> prompt p);
             s2 = termWrite (js ''^C'' @ [CR, LF] @ promptText) s1
         in Returns (s2\<lparr>u_input := [], u_cursor := 0, history := rewind (history s2)\<rparr>))
      else Returns s)"

text \<open>
  \<open>handleData\<close>: \<open>data.charCodeAt(0)\<close> is NaN for the empty string, which fails both
  tests and falls to the insertion.
\<close>

definition handleData :: "tokenizer \<Rightarrow> jsstring \<Rightarrow> engine \<Rightarrow> engine outcome" where
  "handleData parse data s =
     (if \<not> u_active s then Returns s
      else
        (case data of
           [] \<Rightarrow> Returns (handleCursorInsert data s)
         | ord # seq \<Rightarrow>
             if ord = ESC then Returns (handleEscape seq s)
             else if ord < 32 \<or> ord = DEL then handleControl parse data s
             else Returns (handleCursorInsert data s)))"

text \<open>
  \<open>Array.from(s)\<close> splits a string into its code points: a high surrogate followed by a
  low surrogate stays together.
\<close>

fun arrayFrom :: "jsstring \<Rightarrow> jsstring list" where
  "arrayFrom [] = []"
| "arrayFrom [c] = [[c]]"
| "arrayFrom (c # d # rest) =
     (if 0xD800 \<le> c \<and> c \<le> 0xDBFF \<and> 0xDC00 \<le> d \<and> d \<le> 0xDFFF then [c, d] # arrayFrom rest
      else [c] # arrayFrom (d # rest))"

text \<open>\<open>xs.forEach(f)\<close> for a call \<open>f\<close> that may fail to return.\<close>

fun forEach :: "('a \<Rightarrow> engine \<Rightarrow> engine outcome) \<Rightarrow> 'a list \<Rightarrow> engine \<Rightarrow> engine outcome" where
  "forEach f [] s = Returns s"
| "forEach f (x # xs) s = andThen (f x s) (forEach f xs)"

text \<open>
  \<open>handleTermData\<close>, the listener of the terminal's data event, together with the
  reactions it releases: a resolved promise runs its reactions once the listener has
  returned, before the next event.
\<close>

definition handleTermData :: "tokenizer \<Rightarrow> jsstring \<Rightarrow> engine \<Rightarrow> engine outcome" where
  "handleTermData parse data s =
     (if \<not> u_active s then Returns s
      else
        (case u_activeCharPrompt s of
           Some p \<Rightarrow>
             (let s1 = s\<lparr>settled := settled s @ [(charPromise p, Resolved data)]\<rparr>;
                  s2 = s1\<lparr>u_activeCharPrompt := None\<rparr>;
                  s3 = termWrite [CR, LF] s2
              in runReactions data (thens p) s3)
         | None \<Rightarrow>
             if length data > 3 \<and> hd data \<noteq> ESC then
               (let normData = replaceNewlineRuns [CR] False data
                in forEach (handleData parse) (arrayFrom normData) s)
             else handleData parse data s))"

text \<open>The data events of a list of chunks, one after the other.\<close>

definition handleTermDataAll :: "tokenizer \<Rightarrow> jsstring list \<Rightarrow> engine \<Rightarrow> engine outcome" where
  "handleTermDataAll parse chunks s = forEach (handleTermData parse) chunks s"

section \<open>What the output operations leave alone\<close>

text \<open>
  Writing to the terminal changes the field \<open>written\<close> only. \<open>unwritten\<close> forgets that
  field, so that two states are equal up to their output when their images are equal.
\<close>

definition unwritten :: "engine \<Rightarrow> engine" where
  "unwritten s = s\<lparr>written := []\<rparr>"

lemma unwritten_fields [simp]:
  "hasTerm (unwritten s) = hasTerm s"
  "history (unwritten s) = history s"
  "maxAutocompleteEntries (unwritten s) = maxAutocompleteEntries s"
  "u_autocompleteHandlers (unwritten s) = u_autocompleteHandlers s"
  "u_active (unwritten s) = u_active s"
  "u_input (unwritten s) = u_input s"
  "u_cursor (unwritten s) = u_cursor s"
  "u_activePrompt (unwritten s) = u_activePrompt s"
  "u_activeCharPrompt (unwritten s) = u_activeCharPrompt s"
  "u_termSize (unwritten s) = u_termSize s"
  "settled (unwritten s) = settled s"
  "promises (unwritten s) = promises s"
  by (simp_all add: unwritten_def)

lemma unwritten_termWrite [simp]: "unwritten (termWrite t s) = unwritten s"
  by (simp add: unwritten_def termWrite_def)

lemma unwritten_termWriteTimes [simp]: "unwritten (termWriteTimes n t s) = unwritten s"
  by (simp add: unwritten_def termWriteTimes_def)

lemma unwritten_print [simp]: "unwritten (print m s) = unwritten s"
  by (simp add: print_def Let_def)

lemma unwritten_println [simp]: "unwritten (println m s) = unwritten s"
  by (simp add: println_def)

lemma unwritten_clearInput [simp]: "unwritten (clearInput s) = unwritten s"
  by (simp add: clearInput_def Let_def)

lemma unwritten_update [simp]:
  "unwritten (s\<lparr>u_input := i\<rparr>) = (unwritten s)\<lparr>u_input := i\<rparr>"
  "unwritten (s\<lparr>u_cursor := c\<rparr>) = (unwritten s)\<lparr>u_cursor := c\<rparr>"
  by (simp_all add: unwritten_def)

lemma via_unwritten:
  assumes "unwritten s = t"
  shows "u_cursor s = u_cursor t" and "u_input s = u_input t"
    and "u_termSize s = u_termSize t" and "u_active s = u_active t"
    and "u_activePrompt s = u_activePrompt t"
    and "u_activeCharPrompt s = u_activeCharPrompt t" and "hasTerm s = hasTerm t"
    and "history s = history t" and "maxAutocompleteEntries s = maxAutocompleteEntries t"
    and "u_autocompleteHandlers s = u_autocompleteHandlers t"
    and "settled s = settled t" and "promises s = promises t"
  using assms by (auto simp: unwritten_def)

lemma unwritten_setInput:
  "unwritten (setInput newInput c s)
     = (unwritten s)\<lparr>u_input := newInput, u_cursor := min (u_cursor s) (length newInput)\<rparr>"
proof -
  have 1: "unwritten (if c then clearInput s else s) = unwritten s" by simp
  note f = via_unwritten[OF 1]
  have 2: "unwritten (print m (if c then clearInput s else s)) = unwritten s" for m by simp
  note g = via_unwritten[OF 2]
  show ?thesis
    unfolding setInput_def Let_def
    by (cases "length newInput < u_cursor s") (simp_all add: f g min_def)
qed


lemma unwritten_setCursor:
  "unwritten (setCursor n s)
     = (unwritten s)\<lparr>u_cursor := nat (min (max n 0) (int (length (u_input s))))\<rparr>"
  unfolding setCursor_def Let_def
  by (simp add: min_def max_def)

lemma unwritten_handleCursorInsert:
  assumes "u_cursor s \<le> length (u_input s)"
  shows "unwritten (handleCursorInsert data s)
     = (unwritten s)\<lparr>u_input := take (u_cursor s) (u_input s) @ data @ drop (u_cursor s) (u_input s),
                      u_cursor := u_cursor s + length data\<rparr>"
  using assms unfolding handleCursorInsert_def Let_def
  by (simp add: unwritten_setInput min_def)

lemma unwritten_resume:
  "unwritten (resume c s) = (unwritten s)\<lparr>u_cursor := min c (length (u_input s))\<rparr>"
  unfolding resume_def Let_def
  by (simp add: unwritten_setInput)

section \<open>Properties of printWide\<close>

text \<open>The row loop changes the output only, and it ends when both counts are finite.\<close>

lemma printWideRows_unwritten:
  assumes "printWideRows items w wc wr r i s = Some y"
  shows "unwritten y = unwritten s"
proof (rule printWideRows.raw_induct
    [where P = "\<lambda>items w wc wr r i s y. unwritten y = unwritten s", OF _ assms])
  fix f :: "jsstring list \<Rightarrow> nat \<Rightarrow> jsnum \<Rightarrow> jsnum \<Rightarrow> nat \<Rightarrow> nat \<Rightarrow> engine \<Rightarrow> engine option"
    and items w wc wr r i s y
  assume IH: "\<And>items w wc wr r i s y. f items w wc wr r i s = Some y \<Longrightarrow> unwritten y = unwritten s"
    and step: "(if lessNum r wr
      then case printWideRow items w wc i of None \<Rightarrow> None
           | Some (rowStr, i') \<Rightarrow> f items w wc wr (r + 1) i' (println rowStr s)
      else Some s) = Some y"
  show "unwritten y = unwritten s"
  proof (cases "lessNum r wr")
    case False
    with step show ?thesis by simp
  next
    case True
    with step obtain rowStr i' where "f items w wc wr (r + 1) i' (println rowStr s) = Some y"
      by (auto split: option.splits prod.splits)
    from IH [OF this] show ?thesis by simp
  qed
qed

lemma printWideRows_returns:
  "\<exists>y. printWideRows items w (Fin c) (Fin n) r i s = Some y"
proof (induction "n - r" arbitrary: r i s)
  case 0
  then show ?case by (subst printWideRows.simps) simp
next
  case (Suc k)
  obtain rowStr i' where row: "printWideRow items w (Fin c) i = Some (rowStr, i')"
    by (cases "printWideCols items w c ([], i)") simp
  from Suc(2) have "k = n - (r + 1)" and "r < n" by arith+
  from Suc(1) [OF this(1)] obtain y
    where "printWideRows items w (Fin c) (Fin n) (r + 1) i' (println rowStr s) = Some y"
    by blast
  with row \<open>r < n\<close> show ?case by (subst printWideRows.simps) simp
qed

lemma printWide_returns:
  assumes "0 < padding"
    and "fold (\<lambda>item width. max width (length item)) items 0 + padding \<le> cols (u_termSize s)"
  shows "\<exists>s'. printWide items padding s = Returns s' \<and> unwritten s' = unwritten s"
proof (cases "items = []")
  case True
  then show ?thesis by (simp add: printWide_def)
next
  case False
  let ?w = "fold (\<lambda>item width. max width (length item)) items 0 + padding"
  from assms have c: "0 < cols (u_termSize s) div ?w"
    by (simp add: div_greater_zero_iff)
  have wc: "floorDiv (cols (u_termSize s)) ?w = Fin (cols (u_termSize s) div ?w)"
    using assms(1) by (simp add: floorDiv_def)
  obtain n where wr: "ceilDiv (length items) (Fin (cols (u_termSize s) div ?w)) = Fin n"
    using c by simp
  obtain y where y: "printWideRows items ?w (Fin (cols (u_termSize s) div ?w)) (Fin n) 0 0 s = Some y"
    using printWideRows_returns by blast
  from printWideRows_unwritten [OF y] y False show ?thesis
    by (simp add: printWide_def Let_def wc wr del: ceilDiv.simps)
qed

text \<open>
  With no column (the terminal is narrower than one padded item) the row count is
  Infinity and the row loop never ends.
\<close>

lemma printWideRows_Some:
  assumes "printWideRows items w wc wr r i s = Some y"
  shows "wr \<noteq> Infinity \<or> wc = Infinity"
proof (rule printWideRows.raw_induct
    [where P = "\<lambda>items w wc wr r i s y. wr \<noteq> Infinity \<or> wc = Infinity", OF _ assms])
  fix f :: "jsstring list \<Rightarrow> nat \<Rightarrow> jsnum \<Rightarrow> jsnum \<Rightarrow> nat \<Rightarrow> nat \<Rightarrow> engine \<Rightarrow> engine option"
    and items w wc wr r i s y
  assume IH: "\<And>items w wc wr r i s y. f items w wc wr r i s = Some y \<Longrightarrow> wr \<noteq> Infinity \<or> wc = Infinity"
    and step: "(if lessNum r wr
      then case printWideRow items w wc i of None \<Rightarrow> None
           | Some (rowStr, i') \<Rightarrow> f items w wc wr (r + 1) i' (println rowStr s)
      else Some s) = Some y"
  show "wr \<noteq> Infinity \<or> wc = Infinity"
  proof (cases "lessNum r wr")
    case False
    then show ?thesis by (cases wr) auto
  next
    case True
    with step obtain rowStr i' where "f items w wc wr (r + 1) i' (println rowStr s) = Some y"
      by (auto split: option.splits prod.splits)
    then show ?thesis by (rule IH)
  qed
qed

lemma printWide_narrow:
  assumes "items \<noteq> []" and "cols (u_termSize s) < fold (\<lambda>item width. max width (length item)) items 0 + padding"
  shows "printWide items padding s = Diverges"
proof -
  let ?w = "fold (\<lambda>item width. max width (length item)) items 0 + padding"
  have wc: "floorDiv (cols (u_termSize s)) ?w = Fin 0" using assms(2) by (auto simp add: floorDiv_def)
  have wr: "ceilDiv (length items) (Fin 0) = Infinity" using assms(1) by simp
  have "printWideRows items ?w (Fin 0) Infinity 0 0 s = None"
    using printWideRows_Some[of items ?w "Fin 0" Infinity 0 0 s] by (cases "printWideRows items ?w (Fin 0) Infinity 0 0 s") auto
  then show ?thesis using assms(1) by (simp add: printWide_def wc wr Let_def)
qed

text \<open>
  C6, evaluated on the code. On a terminal of 20 columns, the one item
  a_long_file_name.txt (20 characters, 22 with the padding) gives 0 columns and
  infinitely many rows: \<open>printWide\<close> never returns, where the claim has at least one column
  and termination for every terminal size.
\<close>

theorem printWide_long_item:
  "printWide [js ''a_long_file_name.txt''] 2
     (LocalEchoController (Some \<lparr>cols = 20, rows = 24\<rparr>) None None) = Diverges"
  by (rule printWide_narrow) (simp_all add: LocalEchoController_def js_def)

section \<open>Properties of the terminal input\<close>

text \<open>
  For the examples: a handler that offers the subcommands status and stash whatever the
  tokens, and a tokenizer that splits at spaces, as \<open>parse\<close> of shell-quote does on plain
  words.
\<close>

definition subcommands :: handler where
  "subcommands index tokens = Some [js ''status'', js ''stash'']"

fun splitSpaces :: "jsstring \<Rightarrow> jsstring \<Rightarrow> jsstring list" where
  "splitSpaces cur [] = (if cur = [] then [] else [cur])"
| "splitSpaces cur (c # cs) =
     (if c = SPACE then (if cur = [] then splitSpaces [] cs else cur # splitSpaces [] cs)
      else splitSpaces (cur @ [c]) cs)"

definition wordsOf :: tokenizer where
  "wordsOf input = splitSpaces [] input"

text \<open>With at least one candidate \<open>getSharedFragment\<close> does not throw.\<close>

lemma getSharedFragment_Inr:
  "candidates \<noteq> [] \<Longrightarrow> \<exists>r. getSharedFragment fragment candidates = Inr r"
proof (induction fragment candidates rule: getSharedFragment.induct)
  case (1 fragment candidates)
  then obtain c0 cs where cs: "candidates = c0 # cs" by (cases candidates) auto
  show ?case
  proof (cases "length c0 \<le> length fragment")
    case True
    with cs show ?thesis by (subst getSharedFragment.simps) simp
  next
    case False
    show ?thesis
    proof (cases "scanCandidates fragment
        (fragment @ slice c0 (length fragment) (length fragment + 1)) candidates")
      case Extended
      from "1.IH" [OF cs False Extended "1.prems"]
      obtain r where "getSharedFragment
          (fragment @ slice c0 (length fragment) (length fragment + 1)) candidates = Inr r"
        by blast
      with cs False Extended show ?thesis by (subst getSharedFragment.simps) simp
    qed (use cs False in \<open>subst getSharedFragment.simps, simp\<close>)+
  qed
qed

text \<open>
  The tab key with 2 up to \<open>maxAutocompleteEntries\<close> candidates, on a terminal wide enough
  for one column, when \<open>getSharedFragment\<close> returns a non-empty string: that string,
  less as many code units as the last token has, is inserted at the cursor.
\<close>

lemma handleTab_shared:
  assumes handlers: "u_autocompleteHandlers s \<noteq> []"
    and cands: "sort (collectAutocompleteCandidates parse (u_autocompleteHandlers s)
                  (take (u_cursor s) (u_input s))) = candidates"
    and len: "2 \<le> length candidates" "length candidates \<le> maxAutocompleteEntries s"
    and shared: "getSharedFragment (take (u_cursor s) (u_input s)) candidates = Inr (Some fragment)"
      "fragment \<noteq> []"
    and cur: "u_cursor s \<le> length (u_input s)"
    and width: "fold (\<lambda>item width. max width (length item)) candidates 0 + 2 \<le> cols (u_termSize s)"
  shows "\<exists>s'. handleTab parse s = Returns s' \<and>
    unwritten s' = (unwritten s)
      \<lparr>u_input := take (u_cursor s) (u_input s)
           @ drop (length (getLastToken parse (take (u_cursor s) (u_input s)))) fragment
           @ drop (u_cursor s) (u_input s),
       u_cursor := u_cursor s
           + length (drop (length (getLastToken parse (take (u_cursor s) (u_input s)))) fragment)\<rparr>"
proof -
  define ins where "ins = drop (length (getLastToken parse (take (u_cursor s) (u_input s)))) fragment"
  define newInput where "newInput = take (u_cursor s) (u_input s) @ ins @ drop (u_cursor s) (u_input s)"
  define s1 where "s1 = handleCursorInsert ins s"
  define s2 where "s2 = termWrite [CR, LF] (setCursor (int (length (u_input s1))) s1)"
  have u1: "unwritten s1 = (unwritten s)\<lparr>u_input := newInput, u_cursor := u_cursor s + length ins\<rparr>"
    unfolding s1_def newInput_def by (rule unwritten_handleCursorInsert [OF cur])
  have in1: "u_input s1 = newInput" and cur1: "u_cursor s1 = u_cursor s + length ins"
    and size1: "u_termSize s1 = u_termSize s"
    using via_unwritten(1-3) [OF u1] by simp_all
  have u2: "unwritten s2 = (unwritten s1)\<lparr>u_cursor := length newInput\<rparr>"
    unfolding s2_def by (simp add: unwritten_setCursor in1)
  have size2: "u_termSize s2 = u_termSize s"
    using via_unwritten(3) [OF u2] size1 by simp
  have "fold (\<lambda>item width. max width (length item)) candidates 0 + 2 \<le> cols (u_termSize s2)"
    using width size2 by simp
  from printWide_returns [OF _ this] obtain s3
    where s3: "printWide candidates 2 s2 = Returns s3" and u3: "unwritten s3 = unwritten s2"
    by auto
  have in3: "u_input s3 = newInput"
    using via_unwritten(2) [OF u3] via_unwritten(2) [OF u2] in1 by simp
  from len have ne: "candidates \<noteq> []" "length candidates \<noteq> Suc 0" by auto
  have tab: "handleTab parse s = Returns (resume (u_cursor s1) s3)"
    using handlers len ne shared s3
    by (simp add: handleTab_def cands Let_def printAndRestartPrompt_def listCandidates_def
        s1_def s2_def ins_def del: getSharedFragment.simps)
  have fits: "u_cursor s + length ins \<le> length newInput"
    using cur by (simp add: newInput_def)
  have "unwritten (resume (u_cursor s1) s3)
      = (unwritten s)\<lparr>u_input := newInput, u_cursor := u_cursor s + length ins\<rparr>"
    using fits by (simp add: unwritten_resume in3 cur1 u3 u2 u1 min_def)
  with tab show ?thesis unfolding newInput_def ins_def by simp
qed

text \<open>Typing printable characters inserts them at the cursor.\<close>

lemma handleTermData_printable:
  assumes "u_active s" and "u_activeCharPrompt s = None" and "32 \<le> c" and "c \<noteq> DEL"
  shows "handleTermData parse [c] s = Returns (handleCursorInsert [c] s)"
proof -
  from assms(3) have "c \<noteq> ESC" "\<not> c < 32" by auto
  with assms show ?thesis by (simp add: handleTermData_def handleData_def)
qed

lemma typing_inserts:
  assumes "\<forall>c \<in> set chars. 32 \<le> c \<and> c \<noteq> DEL"
    and "u_active s" and "u_activeCharPrompt s = None" and "u_cursor s \<le> length (u_input s)"
  shows "\<exists>t. handleTermDataAll parse (map (\<lambda>c. [c]) chars) s = Returns t
    \<and> unwritten t = (unwritten s)
        \<lparr>u_input := take (u_cursor s) (u_input s) @ chars @ drop (u_cursor s) (u_input s),
         u_cursor := u_cursor s + length chars\<rparr>"
  using assms
proof (induction chars arbitrary: s)
  case Nil
  then show ?case by (simp add: handleTermDataAll_def)
next
  case (Cons c chars)
  define s1 where "s1 = handleCursorInsert [c] s"
  have u1: "unwritten s1 = (unwritten s)
      \<lparr>u_input := take (u_cursor s) (u_input s) @ [c] @ drop (u_cursor s) (u_input s),
       u_cursor := u_cursor s + length [c]\<rparr>"
    unfolding s1_def by (rule unwritten_handleCursorInsert) (rule Cons.prems)
  note f = via_unwritten [OF u1]
  have step: "handleTermData parse [c] s = Returns s1"
    unfolding s1_def using Cons.prems by (intro handleTermData_printable) simp_all
  have "\<exists>t. handleTermDataAll parse (map (\<lambda>c. [c]) chars) s1 = Returns t
    \<and> unwritten t = (unwritten s1)
        \<lparr>u_input := take (u_cursor s1) (u_input s1) @ chars @ drop (u_cursor s1) (u_input s1),
         u_cursor := u_cursor s1 + length chars\<rparr>"
    using Cons.prems by (intro Cons.IH) (simp_all add: f)
  then obtain t where t: "handleTermDataAll parse (map (\<lambda>c. [c]) chars) s1 = Returns t"
    "unwritten t = (unwritten s1)
        \<lparr>u_input := take (u_cursor s1) (u_input s1) @ chars @ drop (u_cursor s1) (u_input s1),
         u_cursor := u_cursor s1 + length chars\<rparr>"
    by blast
  have "handleTermDataAll parse (map (\<lambda>c. [c]) (c # chars)) s = Returns t"
    using step t(1) by (simp add: handleTermDataAll_def)
  moreover have "unwritten t = (unwritten s)
        \<lparr>u_input := take (u_cursor s) (u_input s) @ (c # chars) @ drop (u_cursor s) (u_input s),
         u_cursor := u_cursor s + length (c # chars)\<rparr>"
    using Cons.prems(4) by (simp add: t(2) u1 f min_def)
  ultimately show ?case by blast
qed

text \<open>
  C1, evaluated on the code. A read is active, the one handler offers status and stash,
  the terminal has 80 columns, the buffer holds git st with the cursor at its end, and
  the tokens are git and st. The candidates are stash and status, and the fragment they
  share is sta, which \<open>getSharedFragment\<close> returns when it starts from the last token st.
  The tab key starts it from the whole buffer up to the cursor: that is already longer
  than stash and comes back as the shared fragment, and its part beyond the two code
  units of the last token is inserted. The buffer becomes git stt st, where the claim
  has git sta.
\<close>

theorem tab_completes_second_token:
  assumes "parse (js ''git st'') = [js ''git'', js ''st'']"
    and "u_active s" and "u_activeCharPrompt s = None"
    and "u_autocompleteHandlers s = [subcommands]"
    and "maxAutocompleteEntries s = 100" and "cols (u_termSize s) = 80"
    and "u_input s = js ''git st''" and "u_cursor s = 6"
  shows "(\<exists>s'. handleTermData parse [TAB] s = Returns s'
            \<and> u_input s' = js ''git stt st'' \<and> u_cursor s' = 10)
         \<and> getSharedFragment (js ''st'') [js ''stash'', js ''status''] = Inr (Some (js ''sta''))"
proof -
  have frag: "take (u_cursor s) (u_input s) = js ''git st''"
    using assms by (simp add: js_def)
  have cands: "sort (collectAutocompleteCandidates parse (u_autocompleteHandlers s)
      (take (u_cursor s) (u_input s))) = [js ''stash'', js ''status'']"
    unfolding frag using assms(1,4)
    by (simp add: collectAutocompleteCandidates_def subcommands_def startsWith_def
        trim_def isTrimSpace_def isLineTerminator_def js_def Let_def)
  have last: "getLastToken parse (js ''git st'') = js ''st''"
    using assms(1)
    by (simp add: getLastToken_def trim_def isTrimSpace_def isLineTerminator_def js_def)
  have shared: "getSharedFragment (take (u_cursor s) (u_input s)) [js ''stash'', js ''status'']
      = Inr (Some (js ''git st''))"
    unfolding frag by (simp add: js_def)
  have "\<exists>s'. handleTab parse s = Returns s' \<and>
    unwritten s' = (unwritten s)
      \<lparr>u_input := take (u_cursor s) (u_input s)
           @ drop (length (getLastToken parse (take (u_cursor s) (u_input s)))) (js ''git st'')
           @ drop (u_cursor s) (u_input s),
       u_cursor := u_cursor s
           + length (drop (length (getLastToken parse (take (u_cursor s) (u_input s))))
                       (js ''git st''))\<rparr>"
    by (rule handleTab_shared [OF _ cands _ _ shared]) (use assms in \<open>simp_all add: js_def\<close>)
  then obtain s' where s': "handleTab parse s = Returns s'"
    "unwritten s' = (unwritten s)\<lparr>u_input := js ''git stt st'', u_cursor := 10\<rparr>"
    unfolding frag last using assms(7,8) by (auto simp: js_def)
  have "handleTermData parse [TAB] s = handleTab parse s"
    using assms(2,3) by (simp add: handleTermData_def handleData_def handleControl_def)
  moreover from via_unwritten(1,2) [OF s'(2)]
  have "u_input s' = js ''git stt st''" "u_cursor s' = 10"
    by simp_all
  moreover have "getSharedFragment (js ''st'') [js ''stash'', js ''status'']
      = Inr (Some (js ''sta''))"
    by (simp add: js_def startsWith_def slice_def)
  ultimately show ?thesis using s'(1) by simp
qed

text \<open>
  The same from the public interface: a controller on a terminal of 80 columns, the
  handler registered, a read started, git st typed, then the tab key.
\<close>

theorem tab_completes_second_token_witness:
  "\<exists>t s'. handleTermDataAll wordsOf [js ''g'', js ''i'', js ''t'', js '' '', js ''s'', js ''t'']
             (snd (read (js ''$ '') (js ''> '')
                (addAutocompleteHandler subcommands
                   (LocalEchoController (Some \<lparr>cols = 80, rows = 24\<rparr>) None None))))
           = Returns t
         \<and> handleTermData wordsOf [TAB] t = Returns s'
         \<and> u_input s' = js ''git stt st'' \<and> u_cursor s' = 10"
proof -
  define s0 where "s0 = snd (read (js ''$ '') (js ''> '')
    (addAutocompleteHandler subcommands
       (LocalEchoController (Some \<lparr>cols = 80, rows = 24\<rparr>) None None)))"
  have s0: "u_active s0" "u_activeCharPrompt s0 = None" "u_input s0 = []" "u_cursor s0 = 0"
    "u_autocompleteHandlers s0 = [subcommands]" "maxAutocompleteEntries s0 = 100"
    "cols (u_termSize s0) = 80"
    by (simp_all add: s0_def read_def addAutocompleteHandler_def LocalEchoController_def
        termWrite_def)
  have chunks: "[js ''g'', js ''i'', js ''t'', js '' '', js ''s'', js ''t'']
      = map (\<lambda>c. [c]) (js ''git st'')"
    by (simp add: js_def)
  have "\<exists>t. handleTermDataAll wordsOf (map (\<lambda>c. [c]) (js ''git st'')) s0 = Returns t
    \<and> unwritten t = (unwritten s0)
        \<lparr>u_input := take (u_cursor s0) (u_input s0) @ js ''git st''
                      @ drop (u_cursor s0) (u_input s0),
         u_cursor := u_cursor s0 + length (js ''git st'')\<rparr>"
    by (rule typing_inserts) (simp_all add: s0 js_def)
  then obtain t where t: "handleTermDataAll wordsOf (map (\<lambda>c. [c]) (js ''git st'')) s0 = Returns t"
    and ut: "unwritten t = (unwritten s0)\<lparr>u_input := js ''git st'', u_cursor := 6\<rparr>"
    by (auto simp: s0 js_def)
  note f = via_unwritten [OF ut]
  have "(\<exists>s'. handleTermData wordsOf [TAB] t = Returns s'
            \<and> u_input s' = js ''git stt st'' \<and> u_cursor s' = 10)
         \<and> getSharedFragment (js ''st'') [js ''stash'', js ''status''] = Inr (Some (js ''sta''))"
    by (rule tab_completes_second_token) (simp_all add: f s0 wordsOf_def js_def)
  with t show ?thesis unfolding chunks s0_def by blast
qed

lemma forEach_inactive:
  "\<not> u_active s \<Longrightarrow> forEach (handleTermData parse) chunks s = Returns s"
  by (induction chunks) (simp_all add: handleTermData_def)

text \<open>
  C10. While the controller is not active, a data chunk leaves the whole state as it is,
  the output included, and so does any sequence of chunks. In particular, after a
  \<open>readChar\<close> on a controller that is not active, the char prompt stays pending and no
  promise is settled, whatever arrives.
\<close>

theorem inactive_discards_data:
  assumes "\<not> u_active s"
  shows "handleTermData parse data s = Returns s
    \<and> handleTermDataAll parse chunks s = Returns s
    \<and> handleTermDataAll parse chunks (snd (readChar q s)) = Returns (snd (readChar q s))
    \<and> u_activeCharPrompt (snd (readChar q s))
        = Some \<lparr>charPrompt = q, charPromise = fst (readChar q s), thens = []\<rparr>
    \<and> settled (snd (readChar q s)) = settled s"
proof -
  have "\<not> u_active (snd (readChar q s))"
    using assms by (simp add: readChar_def termWrite_def)
  then show ?thesis using assms
    by (simp add: handleTermDataAll_def forEach_inactive)
      (simp add: handleTermData_def readChar_def termWrite_def)
qed

theorem inactive_discards_data_witness:
  "\<not> u_active (LocalEchoController (Some \<lparr>cols = 80, rows = 24\<rparr>) None None)
   \<and> handleTermData wordsOf (js ''x'') (LocalEchoController (Some \<lparr>cols = 80, rows = 24\<rparr>) None None)
       = Returns (LocalEchoController (Some \<lparr>cols = 80, rows = 24\<rparr>) None None)
   \<and> handleTermDataAll wordsOf [js ''y'', [CR]]
        (snd (readChar (js ''?'') (LocalEchoController (Some \<lparr>cols = 80, rows = 24\<rparr>) None None)))
       = Returns (snd (readChar (js ''?'')
           (LocalEchoController (Some \<lparr>cols = 80, rows = 24\<rparr>) None None)))
   \<and> settled (snd (readChar (js ''?'')
        (LocalEchoController (Some \<lparr>cols = 80, rows = 24\<rparr>) None None))) = []"
  using inactive_discards_data
    [of "LocalEchoController (Some \<lparr>cols = 80, rows = 24\<rparr>) None None" wordsOf "js ''x''"
      "[js ''y'', [CR]]" "js ''?''"]
  by (simp add: LocalEchoController_def)

text \<open>
  While the controller is active (a line read is in flight), the data chunk that follows
  a \<open>readChar\<close> resolves its promise with exactly that chunk, clears the char prompt and
  writes a line break; the buffer, the cursor and the history are as before, so no line
  editing has run. While the controller is not active, the chunk is discarded and the
  char prompt stays pending.
\<close>

lemma readChar_next_chunk:
  "(u_active s \<longrightarrow>
      handleTermData parse data (snd (readChar q s))
        = Returns ((termWrite [CR, LF] (termWrite q s))
            \<lparr>u_activeCharPrompt := None,
             settled := settled s @ [(fst (readChar q s), Resolved data)],
             promises := promises s + 1\<rparr>))
   \<and> (\<not> u_active s \<longrightarrow>
      handleTermData parse data (snd (readChar q s)) = Returns (snd (readChar q s)))"
  by (simp add: handleTermData_def readChar_def termWrite_def)

lemma readChar_next_chunk_active_example:
  "u_active (snd (read (js ''$ '') (js ''> '')
      (LocalEchoController (Some \<lparr>cols = 80, rows = 24\<rparr>) None None)))
   \<and> handleTermData wordsOf (js ''y'')
        (snd (readChar (js ''?'') (snd (read (js ''$ '') (js ''> '')
           (LocalEchoController (Some \<lparr>cols = 80, rows = 24\<rparr>) None None)))))
      = Returns ((snd (read (js ''$ '') (js ''> '')
           (LocalEchoController (Some \<lparr>cols = 80, rows = 24\<rparr>) None None)))
          \<lparr>written := [js ''$ '', js ''?'', [CR, LF]],
           settled := [(1, Resolved (js ''y''))],
           promises := 2\<rparr>)"
  using readChar_next_chunk
    [of "snd (read (js ''$ '') (js ''> '')
      (LocalEchoController (Some \<lparr>cols = 80, rows = 24\<rparr>) None None))" wordsOf "js ''y''" "js ''?''"]
  by (simp add: read_def readChar_def termWrite_def LocalEchoController_def)

text \<open>
  C3, evaluated on the code. On a new controller with no read in flight, \<open>readChar\<close>
  installs its char prompt (promise 0), and the next chunk y is discarded: the prompt
  stays pending and its promise unsettled, where the chunk should have resolved it. The
  prompt is served only once a later \<open>read\<close> has made the controller active: it then
  takes the first key l of that read, which never reaches the buffer.
\<close>

theorem readChar_pending_while_inactive:
  "handleTermData wordsOf (js ''y'')
     (snd (readChar (js ''?'') (LocalEchoController (Some \<lparr>cols = 80, rows = 24\<rparr>) None None)))
   = Returns (snd (readChar (js ''?'')
       (LocalEchoController (Some \<lparr>cols = 80, rows = 24\<rparr>) None None)))
   \<and> u_activeCharPrompt (snd (readChar (js ''?'')
        (LocalEchoController (Some \<lparr>cols = 80, rows = 24\<rparr>) None None)))
     = Some \<lparr>charPrompt = js ''?'', charPromise = 0, thens = []\<rparr>
   \<and> settled (snd (readChar (js ''?'')
        (LocalEchoController (Some \<lparr>cols = 80, rows = 24\<rparr>) None None))) = []
   \<and> handleTermData wordsOf (js ''l'')
        (snd (read (js ''$ '') (js ''> '')
           (snd (readChar (js ''?'')
              (LocalEchoController (Some \<lparr>cols = 80, rows = 24\<rparr>) None None)))))
     = Returns ((snd (read (js ''$ '') (js ''> '')
           (snd (readChar (js ''?'')
              (LocalEchoController (Some \<lparr>cols = 80, rows = 24\<rparr>) None None)))))
          \<lparr>written := [js ''?'', js ''$ '', [CR, LF]],
           u_activeCharPrompt := None,
           settled := [(0, Resolved (js ''l''))]\<rparr>)
   \<and> u_input (snd (read (js ''$ '') (js ''> '')
           (snd (readChar (js ''?'')
              (LocalEchoController (Some \<lparr>cols = 80, rows = 24\<rparr>) None None))))) = []"
  by (simp add: handleTermData_def read_def readChar_def termWrite_def LocalEchoController_def)

end
